theory Spec2Isabelle
  imports Main
begin

section \<open>Values, notifications and documents\<close>

text \<open>
  The service of \<^verbatim>\<open>notification_service.py\<close> keeps its notifications in three places: a
  Python object of class \<^verbatim>\<open>Notification\<close>, a document of a MongoDB collection and the JSON
  body of a RabbitMQ message. All three carry the same twelve attributes, and Python
  does not type them, so an attribute holds a value of the type below.

  The values are the ones the service itself builds and reads back: \<^verbatim>\<open>None\<close>, a string
  (of code points below 256), a non-negative integer (the two counters), a
  \<^verbatim>\<open>datetime\<close> (microseconds since the epoch) and the string that \<^verbatim>\<open>str\<close> makes of a
  \<^verbatim>\<open>datetime\<close>, which is what \<^verbatim>\<open>json.dumps(..., default=str)\<close> writes into a message.
  \<open>PDateStr t\<close> stands for that text: a string that no literal of the program equals
  and that neither regular expression of the validators matches. Negative integers,
  floats, booleans, lists and nested objects are outside the model.
\<close>

datatype pyval = PNone | PStr string | PNat nat | PDate int | PDateStr int

type_synonym doc = "string \<rightharpoonup> pyval"

datatype exn =
    KeyError string
  | TypeError string
  | ValueError string
  | ProviderError string
  | JSONDecodeError

text \<open>\<^verbatim>\<open>str(e)\<close>, as \<^verbatim>\<open>send_notification\<close> stores it in \<^verbatim>\<open>last_error\<close>.\<close>

fun str_exn :: "exn \<Rightarrow> string" where
  "str_exn (KeyError k) = [CHR 0x27] @ k @ [CHR 0x27]"
| "str_exn (TypeError m) = m"
| "str_exn (ValueError m) = m"
| "str_exn (ProviderError m) = m"
| "str_exn JSONDecodeError = ''JSONDecodeError''"

definition MAX_RETRIES :: nat where
  "MAX_RETRIES = 5"

record notification =
  id_n :: pyval
  user_id :: pyval
  notification_type :: pyval
  message :: pyval
  email :: pyval
  phone :: pyval
  created_at :: pyval
  status :: pyval
  last_error :: pyval
  retry_count :: pyval
  max_retries :: pyval
  next_retry_time :: pyval

text \<open>
  \<^verbatim>\<open>Notification.__init__\<close>. The fresh \<^verbatim>\<open>uuid4\<close> string and the clock reading
  \<^verbatim>\<open>datetime.utcnow()\<close> are inputs.
\<close>

definition Notification_init ::
  "string \<Rightarrow> int \<Rightarrow> pyval \<Rightarrow> pyval \<Rightarrow> pyval \<Rightarrow> pyval \<Rightarrow> pyval \<Rightarrow> notification" where
  "Notification_init uuid now uid ntype msg mail ph =
     \<lparr> id_n = PStr uuid, user_id = uid, notification_type = ntype, message = msg,
       email = mail, phone = ph, created_at = PDate now, status = PStr ''pending'',
       last_error = PNone, retry_count = PNat 0, max_retries = PNat MAX_RETRIES,
       next_retry_time = PNone \<rparr>"

text \<open>\<^verbatim>\<open>to_dict\<close> returns the object's \<^verbatim>\<open>__dict__\<close>: one key for each attribute.\<close>

definition to_dict :: "notification \<Rightarrow> doc" where
  "to_dict n =
     [ ''id'' \<mapsto> id_n n, ''user_id'' \<mapsto> user_id n,
       ''notification_type'' \<mapsto> notification_type n, ''message'' \<mapsto> message n,
       ''email'' \<mapsto> email n, ''phone'' \<mapsto> phone n, ''created_at'' \<mapsto> created_at n,
       ''status'' \<mapsto> status n, ''last_error'' \<mapsto> last_error n,
       ''retry_count'' \<mapsto> retry_count n, ''max_retries'' \<mapsto> max_retries n,
       ''next_retry_time'' \<mapsto> next_retry_time n ]"

text \<open>\<^verbatim>\<open>data.get(key, default)\<close>.\<close>

definition get_default :: "doc \<Rightarrow> string \<Rightarrow> pyval \<Rightarrow> pyval" where
  "get_default data k dflt = (case data k of None \<Rightarrow> dflt | Some v \<Rightarrow> v)"

text \<open>
  \<^verbatim>\<open>Notification.from_dict\<close>. A subscript \<^verbatim>\<open>data['k']\<close> on a missing key raises
  \<^verbatim>\<open>KeyError\<close>; Python evaluates the three constructor arguments first, then the
  subscripts for \<^verbatim>\<open>id\<close>, \<^verbatim>\<open>created_at\<close> and \<^verbatim>\<open>status\<close>, in this order. The constructor's own
  \<^verbatim>\<open>id\<close> and \<^verbatim>\<open>created_at\<close> are overwritten, so they do not show in the result.
\<close>

definition from_dict :: "doc \<Rightarrow> exn + notification" where
  "from_dict data =
     (case data ''user_id'' of
        None \<Rightarrow> Inl (KeyError ''user_id'')
      | Some uid \<Rightarrow>
     (case data ''notification_type'' of
        None \<Rightarrow> Inl (KeyError ''notification_type'')
      | Some ntype \<Rightarrow>
     (case data ''message'' of
        None \<Rightarrow> Inl (KeyError ''message'')
      | Some msg \<Rightarrow>
     (case data ''id'' of
        None \<Rightarrow> Inl (KeyError ''id'')
      | Some i \<Rightarrow>
     (case data ''created_at'' of
        None \<Rightarrow> Inl (KeyError ''created_at'')
      | Some c \<Rightarrow>
     (case data ''status'' of
        None \<Rightarrow> Inl (KeyError ''status'')
      | Some st \<Rightarrow>
          Inr \<lparr> id_n = i, user_id = uid, notification_type = ntype, message = msg,
                email = get_default data ''email'' (PStr ''''),
                phone = get_default data ''phone'' (PStr ''''),
                created_at = c, status = st,
                last_error = get_default data ''last_error'' PNone,
                retry_count = get_default data ''retry_count'' (PNat 0),
                max_retries = get_default data ''max_retries'' (PNat MAX_RETRIES),
                next_retry_time = get_default data ''next_retry_time'' PNone \<rparr>))))))"

section \<open>Backoff\<close>

text \<open>
  \<^verbatim>\<open>calculate_next_retry_time\<close>: the argument of \<^verbatim>\<open>timedelta(seconds=...)\<close> is
  \<open>retry_delay\<close>, in seconds; the clock reading \<open>now\<close> is an input, in microseconds.
\<close>

definition retry_delay :: "nat \<Rightarrow> nat" where
  "retry_delay rc = min (30 * 2 ^ rc) 3600"

definition calculate_next_retry_time :: "int \<Rightarrow> nat \<Rightarrow> int" where
  "calculate_next_retry_time now rc = now + 1000000 * int (retry_delay rc)"

section \<open>Validators\<close>

text \<open>
  The character classes of Python's \<^verbatim>\<open>re\<close> on \<^verbatim>\<open>str\<close> patterns, for code points below
  256: \<^verbatim>\<open>\d\<close> is the ten decimal digits; \<^verbatim>\<open>\w\<close> is the underscore and every code point
  that \<^verbatim>\<open>str.isalnum\<close> accepts, which below 256 adds to the ASCII letters and digits the
  code points 170, 178, 179, 181, 185, 186, 188 to 190 and 192 to 255 without 215 and
  247.
\<close>

definition is_digit :: "char \<Rightarrow> bool" where
  "is_digit c = (48 \<le> (of_char c :: nat) \<and> (of_char c :: nat) \<le> 57)"

definition is_word :: "char \<Rightarrow> bool" where
  "is_word c =
     (let k = (of_char c :: nat) in
        (48 \<le> k \<and> k \<le> 57) \<or> (65 \<le> k \<and> k \<le> 90) \<or> k = 95 \<or> (97 \<le> k \<and> k \<le> 122)
        \<or> k = 170 \<or> k = 178 \<or> k = 179 \<or> k = 181 \<or> k = 185 \<or> k = 186
        \<or> (188 \<le> k \<and> k \<le> 190) \<or> (192 \<le> k \<and> k \<noteq> 215 \<and> k \<noteq> 247))"

text \<open>The class \<^verbatim>\<open>[\w\.-]\<close>.\<close>

definition is_addr_char :: "char \<Rightarrow> bool" where
  "is_addr_char c = (is_word c \<or> c = CHR ''.'' \<or> c = CHR ''-'')"

text \<open>
  Without \<^verbatim>\<open>re.MULTILINE\<close>, \<^verbatim>\<open>$\<close> matches at the end of the string and also just before
  a newline that ends the string. Neither pattern can consume a newline, so a string
  matches when it, or it without one final newline, is in the pattern's language.
\<close>

definition chop_newline :: "string \<Rightarrow> string" where
  "chop_newline s = (if s \<noteq> [] \<and> last s = CHR 0x0A then butlast s else s)"

text \<open>\<^verbatim>\<open>^\+\d{10,15}$\<close>: a plus sign, then ten to fifteen digits.\<close>

definition phone_pattern :: "string \<Rightarrow> bool" where
  "phone_pattern s =
     (case chop_newline s of
        [] \<Rightarrow> False
      | c # ds \<Rightarrow> c = CHR ''+'' \<and> 10 \<le> length ds \<and> length ds \<le> 15 \<and> list_all is_digit ds)"

text \<open>
  \<^verbatim>\<open>^[\w\.-]+@[\w\.-]+\.\w+$\<close>. The at sign is in no class, so the local part is the
  longest prefix of address characters and the at sign follows it; what follows the
  at sign consists of address characters only; its last dot is followed by a non-empty
  run of word characters up to the end (a word run cannot hold a dot) and preceded by
  at least one address character.
\<close>

definition email_pattern :: "string \<Rightarrow> bool" where
  "email_pattern s =
     (let t = chop_newline s in
        takeWhile is_addr_char t \<noteq> [] \<and>
        (case dropWhile is_addr_char t of
           [] \<Rightarrow> False
         | a # r \<Rightarrow>
             a = CHR ''@'' \<and> list_all is_addr_char r \<and>
             takeWhile is_word (rev r) \<noteq> [] \<and>
             (case dropWhile is_word (rev r) of
                [] \<Rightarrow> False
              | p # b \<Rightarrow> p = CHR ''.'' \<and> b \<noteq> [])))"

text \<open>Python's truth value of an object, as \<^verbatim>\<open>if email\<close> takes it.\<close>

fun truthy :: "pyval \<Rightarrow> bool" where
  "truthy PNone = False"
| "truthy (PStr s) = (s \<noteq> [])"
| "truthy (PNat k) = (k \<noteq> 0)"
| "truthy (PDate t) = True"
| "truthy (PDateStr t) = True"

text \<open>
  \<^verbatim>\<open>re.match(pattern, v)\<close>, as a truth value: a match object is true, \<^verbatim>\<open>None\<close> is false.
  On a value that is not a string \<^verbatim>\<open>re.match\<close> raises \<^verbatim>\<open>TypeError\<close> (the text of the
  message depends on the interpreter's version). The text of a \<^verbatim>\<open>datetime\<close> has no plus
  sign and no at sign, so neither pattern matches it.
\<close>

fun re_match :: "(string \<Rightarrow> bool) \<Rightarrow> pyval \<Rightarrow> exn + bool" where
  "re_match pat (PStr s) = Inr (pat s)"
| "re_match pat (PDateStr t) = Inr False"
| "re_match pat v = Inl (TypeError ''expected string or bytes-like object'')"

text \<open>\<^verbatim>\<open>validate_email\<close> and \<^verbatim>\<open>validate_phone\<close>: the match if the value is true, else false.\<close>

definition validate_email :: "pyval \<Rightarrow> exn + bool" where
  "validate_email v = (if truthy v then re_match email_pattern v else Inr False)"

definition validate_phone :: "pyval \<Rightarrow> exn + bool" where
  "validate_phone v = (if truthy v then re_match phone_pattern v else Inr False)"

section \<open>The collection and the queues\<close>

text \<open>
  The collection is the list of its documents, in insertion order. A filter
  \<^verbatim>\<open>{"id": v}\<close> matches a document whose \<^verbatim>\<open>id\<close> equals \<^verbatim>\<open>v\<close>; a filter on \<^verbatim>\<open>None\<close> also
  matches a document without the field. (\<^verbatim>\<open>insert_one\<close> also adds an \<^verbatim>\<open>_id\<close> key; no
  function of the service reads it, and the model leaves it out.) The database is taken
  to answer: a failure of the database itself is outside the model.

  Every value that the driver sends, in a document, in a \<^verbatim>\<open>$set\<close> or in a filter, is
  encoded as BSON. A BSON date counts milliseconds, and the driver drops what a
  \<^verbatim>\<open>datetime\<close> holds below the millisecond; the other values are stored as they are.
\<close>

fun bson_value :: "pyval \<Rightarrow> pyval" where
  "bson_value (PDate t) = PDate (t div 1000 * 1000)"
| "bson_value v = v"

definition bson_doc :: "doc \<Rightarrow> doc" where
  "bson_doc d = (\<lambda>k. map_option bson_value (d k))"

definition matches_id :: "pyval \<Rightarrow> doc \<Rightarrow> bool" where
  "matches_id v d = (case d ''id'' of None \<Rightarrow> v = PNone | Some w \<Rightarrow> w = bson_value v)"

definition insert_one :: "doc \<Rightarrow> doc list \<Rightarrow> doc list" where
  "insert_one d ds = ds @ [bson_doc d]"

text \<open>\<^verbatim>\<open>find_one({"id": v})\<close>: the first match, or \<^verbatim>\<open>None\<close>.\<close>

fun find_one :: "pyval \<Rightarrow> doc list \<Rightarrow> doc option" where
  "find_one v [] = None"
| "find_one v (d # ds) = (if matches_id v d then Some d else find_one v ds)"

text \<open>
  \<^verbatim>\<open>update_one({"id": v}, {"$set": upd})\<close>: the fields of \<^verbatim>\<open>upd\<close> are written into the
  first match; without a match nothing changes (no upsert). The filter holds nothing
  but the \<^verbatim>\<open>id\<close>.
\<close>

fun update_one :: "pyval \<Rightarrow> doc \<Rightarrow> doc list \<Rightarrow> doc list" where
  "update_one v upd [] = []"
| "update_one v upd (d # ds) =
     (if matches_id v d then (d ++ bson_doc upd) # ds else d # update_one v upd ds)"

text \<open>
  The scheduler's query
  \<^verbatim>\<open>{"status": "retry_scheduled", "next_retry_time": {"$lte": now}}\<close>: a comparison
  with a date matches dates only, and the clock reading of the filter is encoded like
  every date.
\<close>

definition is_due :: "int \<Rightarrow> doc \<Rightarrow> bool" where
  "is_due now d =
     (d ''status'' = Some (PStr ''retry_scheduled'') \<and>
      (case d ''next_retry_time'' of
         Some (PDate t) \<Rightarrow> t \<le> now div 1000 * 1000
       | _ \<Rightarrow> False))"

definition find_due :: "int \<Rightarrow> doc list \<Rightarrow> doc list" where
  "find_due now ds = filter (is_due now) ds"

text \<open>
  A message body is JSON text. \<open>Json_object d\<close> is the text of an object with the
  members \<open>d\<close>; \<open>Undecodable\<close> is any other body: text that \<^verbatim>\<open>json.loads\<close> rejects, or
  JSON that is not an object, on which the first subscript of \<^verbatim>\<open>from_dict\<close> raises.
\<close>

datatype body = Json_object doc | Undecodable

text \<open>\<^verbatim>\<open>json.dumps(d, default=str)\<close>: \<^verbatim>\<open>str\<close> is called on what JSON cannot hold, a date.\<close>

fun json_value :: "pyval \<Rightarrow> pyval" where
  "json_value (PDate t) = PDateStr t"
| "json_value v = v"

definition dumps :: "doc \<Rightarrow> body" where
  "dumps d = Json_object (\<lambda>k. map_option json_value (d k))"

fun loads :: "body \<Rightarrow> exn + doc" where
  "loads (Json_object d) = Inr d"
| "loads Undecodable = Inl JSONDecodeError"

record system =
  store :: "doc list"
  queue :: "body list"
  dlq :: "body list"

text \<open>
  \<^verbatim>\<open>publish_notification\<close>: \<open>broker\<close> tells whether the broker takes the message. When it
  does not, \<^verbatim>\<open>pika\<close> raises, the function logs and returns \<^verbatim>\<open>False\<close>.
\<close>

definition publish_notification :: "bool \<Rightarrow> notification \<Rightarrow> system \<Rightarrow> bool \<times> system" where
  "publish_notification broker n s =
     (if broker then (True, s\<lparr>queue := queue s @ [dumps (to_dict n)]\<rparr>) else (False, s))"

section \<open>Delivery\<close>

text \<open>
  The two calls that leave the process, with the recipient and the text they are given.
  A provider answers a call with \<^verbatim>\<open>None\<close> when it returns and with the text of the
  exception when it raises.
\<close>

datatype call = Mail_send pyval pyval | Sms_create pyval pyval

type_synonym provider = "call \<Rightarrow> string option"

text \<open>The \<^verbatim>\<open>except\<close> branch of \<^verbatim>\<open>send_notification\<close>.\<close>

definition send_failed :: "notification \<Rightarrow> exn \<Rightarrow> call list \<Rightarrow> bool \<times> notification \<times> call list" where
  "send_failed n e calls =
     (False, n\<lparr>status := PStr ''failed'', last_error := PStr (str_exn e)\<rparr>, calls)"

text \<open>
  \<^verbatim>\<open>send_notification\<close>: the result, the notification as the function leaves it and the
  calls it made. A type other than \<^verbatim>\<open>email\<close> and \<^verbatim>\<open>sms\<close> enters neither branch.
\<close>

definition send_notification :: "provider \<Rightarrow> notification \<Rightarrow> bool \<times> notification \<times> call list" where
  "send_notification prov n =
     (if notification_type n = PStr ''email'' then
        (case validate_email (email n) of
           Inl e \<Rightarrow> send_failed n e []
         | Inr ok \<Rightarrow>
             if \<not> ok then send_failed n (ValueError ''Invalid email'') []
             else (case prov (Mail_send (email n) (message n)) of
                     Some m \<Rightarrow> send_failed n (ProviderError m) [Mail_send (email n) (message n)]
                   | None \<Rightarrow>
                       (True, n\<lparr>status := PStr ''sent''\<rparr>, [Mail_send (email n) (message n)])))
      else if notification_type n = PStr ''sms'' then
        (case validate_phone (phone n) of
           Inl e \<Rightarrow> send_failed n e []
         | Inr ok \<Rightarrow>
             if \<not> ok then send_failed n (ValueError ''Invalid phone'') []
             else (case prov (Sms_create (phone n) (message n)) of
                     Some m \<Rightarrow> send_failed n (ProviderError m) [Sms_create (phone n) (message n)]
                   | None \<Rightarrow>
                       (True, n\<lparr>status := PStr ''sent''\<rparr>, [Sms_create (phone n) (message n)])))
      else (True, n\<lparr>status := PStr ''sent''\<rparr>, []))"

text \<open>
  The failure branch of \<^verbatim>\<open>process_notification\<close>, on the notification that
  \<^verbatim>\<open>send_notification\<close> left with status \<^verbatim>\<open>failed\<close>. \<^verbatim>\<open>retry_count += 1\<close> and the comparison
  with \<^verbatim>\<open>max_retries\<close> raise \<^verbatim>\<open>TypeError\<close> on anything but integers; the exception, like the
  one of a broker that does not take the dead letter, ends in the \<^verbatim>\<open>except\<close> branch,
  which returns \<^verbatim>\<open>False\<close> and undoes nothing of what was written before.
\<close>

definition handle_failure :: "bool \<Rightarrow> int \<Rightarrow> notification \<Rightarrow> system \<Rightarrow> bool \<times> system" where
  "handle_failure broker now n s =
     (case retry_count n of
        PNat k \<Rightarrow>
          (case max_retries n of
             PNat m \<Rightarrow>
               if Suc k \<ge> m then
                 (let n' = n\<lparr>retry_count := PNat (Suc k), status := PStr ''failed_permanently''\<rparr>;
                      s' = s\<lparr>store := update_one (id_n n') (to_dict n') (store s)\<rparr>
                  in if broker then (True, s'\<lparr>dlq := dlq s' @ [dumps (to_dict n')]\<rparr>)
                     else (False, s'))
               else
                 (let n' = n\<lparr>retry_count := PNat (Suc k),
                             next_retry_time := PDate (calculate_next_retry_time now (Suc k))\<rparr>
                  in (True, s\<lparr>store := update_one (id_n n') (to_dict n') (store s)\<rparr>))
           | _ \<Rightarrow> (False, s))
      | _ \<Rightarrow> (False, s))"

text \<open>\<^verbatim>\<open>Notification.from_dict(json.loads(notification_data))\<close>.\<close>

definition deserialize :: "body \<Rightarrow> exn + notification" where
  "deserialize b = (case loads b of Inl e \<Rightarrow> Inl e | Inr data \<Rightarrow> from_dict data)"

text \<open>
  \<^verbatim>\<open>process_notification\<close>: the provider, the broker's answer to a dead letter and the
  clock are inputs. Every exception ends in the \<^verbatim>\<open>except\<close> branch, which logs it and
  returns \<^verbatim>\<open>False\<close>.
\<close>

definition process_notification ::
  "provider \<Rightarrow> bool \<Rightarrow> int \<Rightarrow> body \<Rightarrow> system \<Rightarrow> bool \<times> system" where
  "process_notification prov broker now b s =
     (case deserialize b of
        Inl e \<Rightarrow> (False, s)
      | Inr n \<Rightarrow>
          (case send_notification prov n of
             (ok, n', calls) \<Rightarrow>
               if ok then
                 (True, s\<lparr>store := update_one (id_n n')
                            [''status'' \<mapsto> PStr ''sent'', ''last_error'' \<mapsto> PNone] (store s)\<rparr>)
               else handle_failure broker now n' s))"

text \<open>
  The consumer's callback: acknowledge when \<^verbatim>\<open>process_notification\<close> returns \<^verbatim>\<open>True\<close>,
  otherwise reject without requeue. The queues are declared without a dead-letter
  exchange, so the broker discards a rejected message.
\<close>

datatype answer = Ack | Nack_no_requeue

definition callback :: "provider \<Rightarrow> bool \<Rightarrow> int \<Rightarrow> body \<Rightarrow> system \<Rightarrow> answer \<times> system" where
  "callback prov broker now b s =
     (case process_notification prov broker now b s of
        (ok, s') \<Rightarrow> (if ok then Ack else Nack_no_requeue, s'))"

text \<open>One delivery: the broker hands the oldest message of the work queue to the callback.\<close>

definition consume :: "provider \<Rightarrow> bool \<Rightarrow> int \<Rightarrow> system \<Rightarrow> (answer \<times> system) option" where
  "consume prov broker now s =
     (case queue s of
        [] \<Rightarrow> None
      | b # bs \<Rightarrow> Some (callback prov broker now b (s\<lparr>queue := bs\<rparr>)))"

section \<open>Scheduler, manual retry and intake\<close>

text \<open>
  The body of the loop of \<^verbatim>\<open>process_scheduled_retries\<close>, for one document of the scan:
  the update is keyed by the \<^verbatim>\<open>id\<close> alone and writes the status; the result of the
  publication is dropped. A document that \<^verbatim>\<open>from_dict\<close> cannot read raises out of the job.
\<close>

definition claim_and_publish :: "bool \<Rightarrow> doc \<Rightarrow> system \<Rightarrow> exn + system" where
  "claim_and_publish broker d s =
     (case from_dict d of
        Inl e \<Rightarrow> Inl e
      | Inr n \<Rightarrow>
          Inr (snd (publish_notification broker n
                 (s\<lparr>store := update_one (id_n n) [''status'' \<mapsto> PStr ''retrying''] (store s)\<rparr>))))"

text \<open>The loop over the documents the scan returned; an exception leaves the rest untouched.\<close>

fun claim_all :: "bool \<Rightarrow> doc list \<Rightarrow> system \<Rightarrow> exn option \<times> system" where
  "claim_all broker [] s = (None, s)"
| "claim_all broker (d # ds) s =
     (case claim_and_publish broker d s of
        Inl e \<Rightarrow> (Some e, s)
      | Inr s' \<Rightarrow> claim_all broker ds s')"

definition process_scheduled_retries :: "bool \<Rightarrow> int \<Rightarrow> system \<Rightarrow> exn option \<times> system" where
  "process_scheduled_retries broker now s = claim_all broker (find_due now (store s)) s"

text \<open>
  \<^verbatim>\<open>retry_notification\<close>, the handler of \<^verbatim>\<open>POST /notifications/<id>/retry\<close>. A document
  found by its \<^verbatim>\<open>id\<close> is never the empty dictionary, so \<^verbatim>\<open>not doc\<close> means that there is none.
\<close>

datatype response =
    Retry_queued
  | Not_found
  | Retry_failed
  | Queued string
  | Bad_request string
  | Queueing_failed
  | Server_error exn

definition retry_notification :: "bool \<Rightarrow> string \<Rightarrow> system \<Rightarrow> response \<times> system" where
  "retry_notification broker notification_id s =
     (case find_one (PStr notification_id) (store s) of
        None \<Rightarrow> (Not_found, s)
      | Some d \<Rightarrow>
          (case from_dict d of
             Inl e \<Rightarrow> (Server_error e, s)
           | Inr n \<Rightarrow>
               (let n' = n\<lparr>retry_count := PNat 0, status := PStr ''retrying'',
                           next_retry_time := PNone\<rparr>;
                    s' = s\<lparr>store := update_one (PStr notification_id) (to_dict n') (store s)\<rparr>
                in case publish_notification broker n' s' of
                     (ok, s'') \<Rightarrow> (if ok then Retry_queued else Retry_failed, s''))))"

text \<open>
  \<^verbatim>\<open>send_notification_api\<close>, the handler of \<^verbatim>\<open>POST /notifications\<close>, on a JSON object
  \<open>data\<close>; the fresh identifier and the clock are inputs.
\<close>

definition send_notification_api ::
  "bool \<Rightarrow> string \<Rightarrow> int \<Rightarrow> doc \<Rightarrow> system \<Rightarrow> response \<times> system" where
  "send_notification_api broker uuid now data s =
     (case (data ''user_id'', data ''notification_type'', data ''message'') of
        (Some uid, Some ntype, Some msg) \<Rightarrow>
          if ntype \<noteq> PStr ''email'' \<and> ntype \<noteq> PStr ''sms'' \<and> ntype \<noteq> PStr ''in_app''
          then (Bad_request ''Invalid notification type'', s)
          else
            (let n = Notification_init uuid now uid ntype msg
                       (get_default data ''email'' (PStr ''''))
                       (get_default data ''phone'' (PStr ''''));
                 s' = s\<lparr>store := insert_one (to_dict n) (store s)\<rparr>
             in case publish_notification broker n s' of
                  (ok, s'') \<Rightarrow> (if ok then Queued uuid else Queueing_failed, s''))
      | _ \<Rightarrow> (Bad_request ''Missing required fields'', s))"

section \<open>Sample inputs and observations\<close>

text \<open>A provider that refuses every call, and one that takes every call.\<close>

definition provider_down :: provider where
  "provider_down c = Some ''connection refused''"

definition provider_up :: provider where
  "provider_up c = None"

definition empty_system :: system where
  "empty_system = \<lparr>store = [], queue = [], dlq = []\<rparr>"

text \<open>Requests to \<^verbatim>\<open>POST /notifications\<close>.\<close>

definition email_request :: doc where
  "email_request =
     [''user_id'' \<mapsto> PStr ''u1'', ''notification_type'' \<mapsto> PStr ''email'',
      ''message'' \<mapsto> PStr ''hi'', ''email'' \<mapsto> PStr ''a@b.co'']"

definition bad_email_request :: doc where
  "bad_email_request =
     [''user_id'' \<mapsto> PStr ''u1'', ''notification_type'' \<mapsto> PStr ''email'',
      ''message'' \<mapsto> PStr ''hi'', ''email'' \<mapsto> PStr ''bad-email'']"

definition sms_request :: doc where
  "sms_request =
     [''user_id'' \<mapsto> PStr ''u2'', ''notification_type'' \<mapsto> PStr ''sms'',
      ''message'' \<mapsto> PStr ''hi'', ''phone'' \<mapsto> PStr ''+12345678901'']"

definition bad_phone_request :: doc where
  "bad_phone_request =
     [''user_id'' \<mapsto> PStr ''u2'', ''notification_type'' \<mapsto> PStr ''sms'',
      ''message'' \<mapsto> PStr ''hi'', ''phone'' \<mapsto> PStr ''12345'']"

definition in_app_request :: doc where
  "in_app_request =
     [''user_id'' \<mapsto> PStr ''u3'', ''notification_type'' \<mapsto> PStr ''in_app'',
      ''message'' \<mapsto> PStr ''hi'', ''email'' \<mapsto> PStr ''bad-email'']"

text \<open>The system after the intake of one request, with identifier \<^verbatim>\<open>n-1\<close>, at time 0.\<close>

definition after_intake :: "doc \<Rightarrow> system" where
  "after_intake req = snd (send_notification_api True ''n-1'' 0 req empty_system)"

text \<open>The system after the worker has consumed the message of the intake, one second later.\<close>

definition first_attempt :: "provider \<Rightarrow> doc \<Rightarrow> system" where
  "first_attempt prov req =
     (case consume prov True 1000000 (after_intake req) of
        None \<Rightarrow> after_intake req
      | Some (a, s) \<Rightarrow> s)"

text \<open>
  Notifications as the intake builds them, at time 0, and the system whose collection
  holds the document of one notification (its dates are whole milliseconds).
\<close>

definition pending_email :: notification where
  "pending_email =
     Notification_init ''n-1'' 0 (PStr ''u1'') (PStr ''email'') (PStr ''hi'') (PStr ''a@b.co'')
       (PStr [])"

definition pending_bad_email :: notification where
  "pending_bad_email =
     Notification_init ''n-2'' 0 (PStr ''u1'') (PStr ''email'') (PStr ''hi'') (PStr ''bad-email'')
       (PStr [])"

definition pending_in_app :: notification where
  "pending_in_app =
     Notification_init ''n-3'' 0 (PStr ''u3'') (PStr ''in_app'') (PStr ''hi'') (PStr ''bad-email'')
       (PStr ''12345'')"

definition system_of :: "notification \<Rightarrow> system" where
  "system_of n = \<lparr>store = [to_dict n], queue = [], dlq = []\<rparr>"

text \<open>
  A record in the state the scheduler's query selects. No function of the service writes
  the status \<^verbatim>\<open>retry_scheduled\<close>; such a record comes from outside.
\<close>

definition scheduled_record :: notification where
  "scheduled_record =
     pending_email\<lparr>status := PStr ''retry_scheduled'', retry_count := PNat 1,
                    next_retry_time := PDate 60000000\<rparr>"

text \<open>
  A notification of type \<^verbatim>\<open>email\<close> or \<^verbatim>\<open>sms\<close> whose contact the validator of its type does
  not accept.
\<close>

definition contact_rejected :: "notification \<Rightarrow> bool" where
  "contact_rejected n =
     ((notification_type n = PStr ''email'' \<and> validate_email (email n) \<noteq> Inr True) \<or>
      (notification_type n = PStr ''sms'' \<and> validate_phone (phone n) \<noteq> Inr True))"

text \<open>
  What the claims look at: status, retry count and next retry time of every stored
  document, and the number of messages in the work queue and in the dead-letter queue.
\<close>

definition observe ::
  "system \<Rightarrow> (pyval option \<times> pyval option \<times> pyval option) list \<times> nat \<times> nat" where
  "observe s =
     (map (\<lambda>d. (d ''status'', d ''retry_count'', d ''next_retry_time'')) (store s),
      length (queue s), length (dlq s))"

section \<open>Properties\<close>

subsection \<open>Backoff delays\<close>

lemma retry_delay_small:
  "retry_delay 0 = 30" "retry_delay 1 = 60" "retry_delay 2 = 120" "retry_delay 3 = 240"
  "retry_delay 4 = 480" "retry_delay 5 = 960" "retry_delay 6 = 1920"
  by (simp_all add: retry_delay_def)

lemma retry_delay_capped:
  assumes "7 \<le> rc"
  shows "retry_delay rc = 3600"
proof -
  have "(2::nat) ^ 7 \<le> 2 ^ rc"
    using assms by (rule power_increasing) simp
  then have "(3600::nat) \<le> 30 * 2 ^ rc"
    by simp
  then show ?thesis
    by (simp add: retry_delay_def)
qed

text \<open>
  C5, as the claim states it, fails at retry count 5 (and 6): the delay is
  \<open>30 * 2 ^ 5 = 960\<close> seconds, below the cap, not 3600.
\<close>

theorem retry_delay_five_not_capped:
  "retry_delay 5 = 960 \<and> retry_delay 5 \<noteq> 3600"
  by (simp add: retry_delay_def)

text \<open>
  C5, amended: for every retry count the delay is \<open>min (30 * 2 ^ rc) 3600\<close> seconds,
  that is 30, 60, 120, 240, 480, 960 and 1920 for the counts 0 to 6 and exactly 3600
  from count 7 on, and the next retry time is the clock reading plus that delay.
\<close>

theorem retry_delay_values:
  "retry_delay rc = min (30 * 2 ^ rc) 3600
   \<and> retry_delay 0 = 30 \<and> retry_delay 1 = 60 \<and> retry_delay 2 = 120
   \<and> retry_delay 3 = 240 \<and> retry_delay 4 = 480
   \<and> retry_delay 5 = 960 \<and> retry_delay 6 = 1920
   \<and> (7 \<le> rc \<longrightarrow> retry_delay rc = 3600)
   \<and> calculate_next_retry_time now rc = now + 1000000 * int (retry_delay rc)"
  using retry_delay_small retry_delay_capped
  by (simp add: retry_delay_def calculate_next_retry_time_def)

theorem retry_delay_values_witness:
  "(7::nat) \<le> 9 \<and> retry_delay 9 = 3600
   \<and> calculate_next_retry_time 0 9 = 3600000000"
  using retry_delay_values [of 9 0] by simp

subsection \<open>Round trip through the dictionary\<close>

text \<open>
  C10: \<^verbatim>\<open>from_dict\<close> is a left inverse of \<^verbatim>\<open>to_dict\<close>: reading back the dictionary of a
  notification gives a notification with the same twelve attributes.
\<close>

theorem from_dict_to_dict:
  "from_dict (to_dict n) = Inr n"
  by (simp add: from_dict_def to_dict_def get_default_def)

subsection \<open>Evaluation and the collection\<close>

lemmas document_defs =
  to_dict_def from_dict_def get_default_def dumps_def deserialize_def Notification_init_def
  MAX_RETRIES_def matches_id_def bson_doc_def map_add_def observe_def system_of_def Let_def

lemmas validator_defs =
  validate_email_def validate_phone_def email_pattern_def phone_pattern_def chop_newline_def
  is_addr_char_def is_word_def is_digit_def

lemmas worker_defs =
  process_notification_def send_notification_def send_failed_def handle_failure_def
  calculate_next_retry_time_def retry_delay_def consume_def callback_def
  provider_down_def provider_up_def

lemmas intake_defs =
  send_notification_api_def insert_one_def publish_notification_def empty_system_def
  after_intake_def first_attempt_def

text \<open>
  An update that leaves the \<^verbatim>\<open>id\<close> alone, or writes the one it was looked up by, is seen
  by the next lookup of that \<^verbatim>\<open>id\<close>.
\<close>

lemma find_one_update_one:
  assumes "upd ''id'' = None \<or> upd ''id'' = Some v"
  shows "find_one v (update_one v upd ds)
           = map_option (\<lambda>d. d ++ bson_doc upd) (find_one v ds)"
  using assms
  by (induction ds) (auto simp: matches_id_def bson_doc_def map_add_def split: option.splits)

lemma bson_value_idem:
  "bson_value (bson_value v) = bson_value v"
  by (cases v) simp_all

lemma bson_doc_apply:
  "bson_doc d k = map_option bson_value (d k)"
  by (simp add: bson_doc_def)

lemma find_one_matches:
  "find_one v ds = Some d \<Longrightarrow> matches_id v d"
  by (induction ds) (auto split: if_splits)

lemma to_dict_id:
  "to_dict n ''id'' = Some (id_n n)"
  by (simp add: to_dict_def)

lemma from_dict_id:
  "from_dict d = Inr n \<Longrightarrow> d ''id'' = Some (id_n n)"
  by (auto simp: from_dict_def split: option.splits)

lemma find_one_set_all:
  "find_one (id_n n) (update_one (id_n n) (to_dict n) ds)
     = map_option (\<lambda>d. d ++ bson_doc (to_dict n)) (find_one (id_n n) ds)"
  by (rule find_one_update_one) (simp add: to_dict_id)

subsection \<open>The two branches of the failure handler\<close>

lemma handle_failure_retry:
  assumes "retry_count n = PNat k" "max_retries n = PNat m" "Suc k < m"
  shows "handle_failure broker now n s =
    (True, s\<lparr>store := update_one (id_n n)
       (to_dict (n\<lparr>retry_count := PNat (Suc k),
                   next_retry_time := PDate (calculate_next_retry_time now (Suc k))\<rparr>))
       (store s)\<rparr>)"
  using assms by (simp add: handle_failure_def Let_def)

lemma handle_failure_exhausted:
  assumes "retry_count n = PNat k" "max_retries n = PNat m" "m \<le> Suc k"
  shows "handle_failure broker now n s =
    (broker, s\<lparr>store := update_one (id_n n)
       (to_dict (n\<lparr>retry_count := PNat (Suc k), status := PStr ''failed_permanently''\<rparr>))
       (store s),
       dlq := (if broker
               then dlq s @ [dumps (to_dict (n\<lparr>retry_count := PNat (Suc k),
                                               status := PStr ''failed_permanently''\<rparr>))]
               else dlq s)\<rparr>)"
  using assms by (simp add: handle_failure_def Let_def)

lemma send_rejected:
  assumes "contact_rejected n"
  shows "\<exists>e. send_notification prov n
           = (False, n\<lparr>status := PStr ''failed'', last_error := PStr e\<rparr>, [])"
  using assms
  by (auto simp: contact_rejected_def send_notification_def send_failed_def split: sum.splits)

subsection \<open>Retry scheduling by the worker\<close>

text \<open>
  C1 (the code departs from the claim): a pending email notification with a well-formed
  address, retry count 0 and five retries allowed, whose delivery the mail provider
  refuses. \<^verbatim>\<open>process_notification\<close> returns \<^verbatim>\<open>True\<close> and writes retry count 1 and the
  next retry time, 60 seconds after the attempt, but the status it writes is the
  \<^verbatim>\<open>failed\<close> that \<^verbatim>\<open>send_notification\<close> left, not \<^verbatim>\<open>retry_scheduled\<close>.
\<close>

theorem failed_attempt_keeps_status_failed:
  "map_prod id observe
     (process_notification provider_down True 0 (dumps (to_dict pending_email))
        (system_of pending_email))
   = (True, [(Some (PStr ''failed''), Some (PNat 1), Some (PDate 60000000))], 0, 0)"
  by (simp add: document_defs validator_defs worker_defs pending_email_def)

text \<open>
  C2 (the code departs from the claim): after the intake of an SMS notification the
  record is pending without a next retry time; after the worker's attempt, which the
  SMS provider refuses, the record has a next retry time and the status \<^verbatim>\<open>failed\<close>.
\<close>

theorem retry_time_without_retry_scheduled:
  "observe (after_intake sms_request)
     = ([(Some (PStr ''pending''), Some (PNat 0), Some PNone)], 1, 0)
   \<and> observe (first_attempt provider_down sms_request)
     = ([(Some (PStr ''failed''), Some (PNat 1), Some (PDate 61000000))], 0, 0)"
  by (simp add: document_defs validator_defs worker_defs intake_defs sms_request_def)

text \<open>
  C6 (the code departs from the claim): an email notification that the provider
  refuses. After the first attempt the record is \<^verbatim>\<open>failed\<close> with retry count 1 and both
  queues are empty; a scheduler tick at any time selects nothing and changes nothing,
  and the worker finds no message. The record never becomes \<^verbatim>\<open>failed_permanently\<close> and no
  dead letter is written.
\<close>

theorem failing_record_never_dead_lettered:
  "observe (first_attempt provider_down email_request)
     = ([(Some (PStr ''failed''), Some (PNat 1), Some (PDate 61000000))], 0, 0)
   \<and> map_prod id observe
       (process_scheduled_retries True now (first_attempt provider_down email_request))
     = (None, [(Some (PStr ''failed''), Some (PNat 1), Some (PDate 61000000))], 0, 0)
   \<and> consume provider_down True now
       (snd (process_scheduled_retries True now (first_attempt provider_down email_request)))
     = None"
  by (simp add: document_defs validator_defs worker_defs intake_defs email_request_def
      process_scheduled_retries_def find_due_def is_due_def)

subsection \<open>A contact that fails validation\<close>

text \<open>
  C3, as the claim states it, fails: an SMS notification to the number \<^verbatim>\<open>12345\<close>, with a
  provider that would take every call. After the first attempt the record is \<^verbatim>\<open>failed\<close>,
  not \<^verbatim>\<open>failed_permanently\<close>, its retry count is 1, not 0, and the dead-letter queue is
  empty.
\<close>

theorem bad_phone_not_dead_lettered:
  "observe (first_attempt provider_up bad_phone_request)
     = ([(Some (PStr ''failed''), Some (PNat 1), Some (PDate 61000000))], 0, 0)"
  by (simp add: document_defs validator_defs worker_defs intake_defs bad_phone_request_def)

text \<open>
  C3, amended: for an email or SMS notification whose contact fails validation the
  attempt fails without a call to the provider and takes the path of every failed
  attempt: the stored retry count is the message's count plus one. The record becomes
  \<^verbatim>\<open>failed_permanently\<close> and one dead letter, the record as it was stored, is published
  (the broker taking it) only when that count reaches \<^verbatim>\<open>max_retries\<close>; below
  \<^verbatim>\<open>max_retries\<close> the stored status is not \<^verbatim>\<open>failed_permanently\<close>, no dead letter is
  published and the stored next retry time is the backoff time, to the millisecond.
\<close>

theorem rejected_contact_uses_retry_budget:
  assumes des: "deserialize b = Inr n"
    and rej: "contact_rejected n"
    and rc: "retry_count n = PNat k"
    and mr: "max_retries n = PNat m"
    and stored: "find_one (id_n n) (store s) = Some d"
  shows "fst (send_notification prov n) = False \<and> snd (snd (send_notification prov n)) = []
    \<and> map_option (\<lambda>d'. d' ''retry_count'')
         (find_one (id_n n) (store (snd (process_notification prov True now b s))))
       = Some (Some (PNat (Suc k)))
    \<and> (if m \<le> Suc k
        then map_option (\<lambda>d'. d' ''status'')
               (find_one (id_n n) (store (snd (process_notification prov True now b s))))
               = Some (Some (PStr ''failed_permanently''))
           \<and> dlq (snd (process_notification prov True now b s))
               = dlq s @ [dumps (to_dict ((fst (snd (send_notification prov n)))
                                   \<lparr>retry_count := PNat (Suc k),
                                    status := PStr ''failed_permanently''\<rparr>))]
        else map_option (\<lambda>d'. d' ''status'')
               (find_one (id_n n) (store (snd (process_notification prov True now b s))))
               \<noteq> Some (Some (PStr ''failed_permanently''))
           \<and> map_option (\<lambda>d'. d' ''next_retry_time'')
               (find_one (id_n n) (store (snd (process_notification prov True now b s))))
               = Some (Some (PDate (calculate_next_retry_time now (Suc k) div 1000 * 1000)))
           \<and> dlq (snd (process_notification prov True now b s)) = dlq s)"
proof -
  obtain e where sent:
    "send_notification prov n = (False, n\<lparr>status := PStr ''failed'', last_error := PStr e\<rparr>, [])"
    using send_rejected [OF rej] by blast
  let ?f = "n\<lparr>status := PStr ''failed'', last_error := PStr e\<rparr>"
  have proc: "process_notification prov True now b s = handle_failure True now ?f s"
    using des sent by (simp add: process_notification_def)
  have rc': "retry_count ?f = PNat k" and mr': "max_retries ?f = PNat m"
    using rc mr by simp_all
  show ?thesis
  proof (cases "m \<le> Suc k")
    case True
    let ?g = "?f\<lparr>retry_count := PNat (Suc k), status := PStr ''failed_permanently''\<rparr>"
    have "find_one (id_n ?g) (update_one (id_n ?g) (to_dict ?g) (store s))
        = map_option (\<lambda>d. d ++ bson_doc (to_dict ?g)) (find_one (id_n ?g) (store s))"
      by (rule find_one_set_all)
    then have "find_one (id_n n) (update_one (id_n n) (to_dict ?g) (store s))
        = Some (d ++ bson_doc (to_dict ?g))"
      using stored by simp
    then show ?thesis
      using True sent proc handle_failure_exhausted [OF rc' mr' True, of True now s]
      by (simp add: to_dict_def bson_doc_def)
  next
    case False
    then have lt: "Suc k < m" by simp
    let ?g = "?f\<lparr>retry_count := PNat (Suc k),
                   next_retry_time := PDate (calculate_next_retry_time now (Suc k))\<rparr>"
    have "find_one (id_n ?g) (update_one (id_n ?g) (to_dict ?g) (store s))
        = map_option (\<lambda>d. d ++ bson_doc (to_dict ?g)) (find_one (id_n ?g) (store s))"
      by (rule find_one_set_all)
    then have "find_one (id_n n) (update_one (id_n n) (to_dict ?g) (store s))
        = Some (d ++ bson_doc (to_dict ?g))"
      using stored by simp
    then show ?thesis
      using False sent proc handle_failure_retry [OF rc' mr' lt, of True now s]
      by (simp add: to_dict_def bson_doc_def)
  qed
qed

text \<open>
  The theorem at the address \<^verbatim>\<open>bad-email\<close>: on the first attempt (retry count 0 of 5),
  made 1500 microseconds after the epoch, and on the attempt that exhausts the retries
  (retry count 4 of 5).
\<close>

theorem rejected_contact_uses_retry_budget_witness:
  "deserialize (dumps (to_dict pending_bad_email))
     = Inr (pending_bad_email\<lparr>created_at := PDateStr 0\<rparr>)
   \<and> contact_rejected (pending_bad_email\<lparr>created_at := PDateStr 0\<rparr>)
   \<and> find_one (PStr ''n-2'') (store (system_of pending_bad_email))
     = Some (to_dict pending_bad_email)
   \<and> observe (snd (process_notification provider_up True 1500 (dumps (to_dict pending_bad_email))
                    (system_of pending_bad_email)))
     = ([(Some (PStr ''failed''), Some (PNat 1), Some (PDate 60001000))], 0, 0)
   \<and> deserialize (dumps (to_dict (pending_bad_email\<lparr>retry_count := PNat 4\<rparr>)))
     = Inr (pending_bad_email\<lparr>created_at := PDateStr 0, retry_count := PNat 4\<rparr>)
   \<and> observe (snd (process_notification provider_up True 0
                    (dumps (to_dict (pending_bad_email\<lparr>retry_count := PNat 4\<rparr>)))
                    (system_of pending_bad_email)))
     = ([(Some (PStr ''failed_permanently''), Some (PNat 5), Some PNone)], 0, 1)"
  using rejected_contact_uses_retry_budget
      [of "dumps (to_dict pending_bad_email)" "pending_bad_email\<lparr>created_at := PDateStr 0\<rparr>"
          0 5 "system_of pending_bad_email" "to_dict pending_bad_email" provider_up 1500]
    rejected_contact_uses_retry_budget
      [of "dumps (to_dict (pending_bad_email\<lparr>retry_count := PNat 4\<rparr>))"
          "pending_bad_email\<lparr>created_at := PDateStr 0, retry_count := PNat 4\<rparr>"
          4 5 "system_of pending_bad_email" "to_dict pending_bad_email" provider_up 0]
  by (simp add: document_defs validator_defs worker_defs pending_bad_email_def
      contact_rejected_def)

subsection \<open>The scheduler's claim\<close>

text \<open>
  C4, as the claim states it, fails: a record was selected by the scan as
  \<^verbatim>\<open>retry_scheduled\<close> and has been delivered since, so that it is stored with the status
  \<^verbatim>\<open>sent\<close>. The claim step for the scanned document writes \<^verbatim>\<open>retrying\<close> over \<^verbatim>\<open>sent\<close> and
  publishes the record again.
\<close>

theorem claim_overwrites_sent:
  "observe (system_of (scheduled_record\<lparr>status := PStr ''sent''\<rparr>))
     = ([(Some (PStr ''sent''), Some (PNat 1), Some (PDate 60000000))], 0, 0)
   \<and> map_sum id observe
       (claim_and_publish True (to_dict scheduled_record)
          (system_of (scheduled_record\<lparr>status := PStr ''sent''\<rparr>)))
     = Inr ([(Some (PStr ''retrying''), Some (PNat 1), Some (PDate 60000000))], 1, 0)"
  by (simp add: document_defs claim_and_publish_def publish_notification_def
      scheduled_record_def pending_email_def)

text \<open>
  C4, amended: the claim step is an unconditional write keyed by the \<^verbatim>\<open>id\<close>. For a
  document of the scan it sets the status of the stored record with that \<^verbatim>\<open>id\<close> to
  \<^verbatim>\<open>retrying\<close>, whatever the stored status is at that moment, and publishes the scanned
  document to the work queue whenever the broker takes it.
\<close>

theorem claim_is_blind_write:
  assumes "from_dict d = Inr n" and "find_one (id_n n) (store s) = Some d0"
  shows "claim_and_publish broker d s =
      Inr (s\<lparr>store := update_one (id_n n) [''status'' \<mapsto> PStr ''retrying''] (store s),
             queue := (if broker then queue s @ [dumps (to_dict n)] else queue s)\<rparr>)
    \<and> find_one (id_n n) (update_one (id_n n) [''status'' \<mapsto> PStr ''retrying''] (store s))
        = Some (d0(''status'' \<mapsto> PStr ''retrying''))"
proof -
  have same: "bson_doc [''status'' \<mapsto> PStr ''retrying''] = [''status'' \<mapsto> PStr ''retrying'']"
    by (rule ext) (simp add: bson_doc_def)
  have "find_one (id_n n) (update_one (id_n n) [''status'' \<mapsto> PStr ''retrying''] (store s))
      = map_option (\<lambda>d. d ++ bson_doc [''status'' \<mapsto> PStr ''retrying''])
          (find_one (id_n n) (store s))"
    by (rule find_one_update_one) simp
  then show ?thesis
    using assms same by (simp add: claim_and_publish_def publish_notification_def)
qed

text \<open>
  The theorem on a record that an earlier claim has already set to \<^verbatim>\<open>retrying\<close>: the
  second claim of the same scanned document publishes it a second time.
\<close>

theorem claim_is_blind_write_witness:
  "from_dict (to_dict scheduled_record) = Inr scheduled_record
   \<and> find_one (PStr ''n-1'') (store (system_of (scheduled_record\<lparr>status := PStr ''retrying''\<rparr>)))
     = Some (to_dict (scheduled_record\<lparr>status := PStr ''retrying''\<rparr>))
   \<and> map_sum id observe
       (claim_and_publish True (to_dict scheduled_record)
          ((system_of (scheduled_record\<lparr>status := PStr ''retrying''\<rparr>))
             \<lparr>queue := [dumps (to_dict scheduled_record)]\<rparr>))
     = Inr ([(Some (PStr ''retrying''), Some (PNat 1), Some (PDate 60000000))], 2, 0)"
  using claim_is_blind_write
      [of "to_dict scheduled_record" scheduled_record
          "(system_of (scheduled_record\<lparr>status := PStr ''retrying''\<rparr>))
             \<lparr>queue := [dumps (to_dict scheduled_record)]\<rparr>"
          "to_dict (scheduled_record\<lparr>status := PStr ''retrying''\<rparr>)" True]
  by (simp add: document_defs scheduled_record_def pending_email_def)

subsection \<open>A message that cannot be read\<close>

text \<open>
  C7, as the claim states it, fails: the worker is handed a body that is not JSON. The
  callback rejects it without requeue; the message is gone from the work queue and the
  dead-letter queue is empty.
\<close>

theorem undecodable_message_dropped:
  "map_option fst (consume provider_up True 0 (empty_system\<lparr>queue := [Undecodable]\<rparr>))
     = Some Nack_no_requeue
   \<and> map_option (observe \<circ> snd)
       (consume provider_up True 0 (empty_system\<lparr>queue := [Undecodable]\<rparr>))
     = Some ([], 0, 0)"
  by (simp add: consume_def callback_def process_notification_def deserialize_def
      empty_system_def observe_def)

text \<open>
  C7, amended: a consumed message whose body cannot be deserialized into a
  notification is only rejected without requeue: \<^verbatim>\<open>process_notification\<close> returns \<^verbatim>\<open>False\<close>
  and leaves the collection and both queues as they are, so nothing is published to the
  dead-letter queue, and the message is removed from the work queue.
\<close>

theorem unreadable_only_rejected:
  assumes "deserialize b = Inl e"
  shows "process_notification prov broker now b s = (False, s)
     \<and> callback prov broker now b s = (Nack_no_requeue, s)
     \<and> consume prov broker now (s\<lparr>queue := b # bs\<rparr>)
         = Some (Nack_no_requeue, s\<lparr>queue := bs\<rparr>)"
  using assms by (simp add: process_notification_def callback_def consume_def)

text \<open>The theorem on a JSON object without the key \<^verbatim>\<open>id\<close>, and on a body that is not JSON.\<close>

theorem unreadable_only_rejected_witness:
  "deserialize (Json_object email_request) = Inl (KeyError ''id'')
   \<and> callback provider_up True 0 (Json_object email_request) empty_system
       = (Nack_no_requeue, empty_system)
   \<and> deserialize Undecodable = Inl JSONDecodeError
   \<and> process_notification provider_up True 0 Undecodable empty_system = (False, empty_system)"
  using unreadable_only_rejected
      [of "Json_object email_request" "KeyError ''id''" provider_up True 0 empty_system]
    unreadable_only_rejected [of Undecodable JSONDecodeError provider_up True 0 empty_system]
  by (simp add: deserialize_def from_dict_def email_request_def)

subsection \<open>Manual retry\<close>

text \<open>
  C8, as the claim states it, fails: a record that is \<^verbatim>\<open>failed_permanently\<close> with retry
  count 5, and a broker that does not take the message. The manual retry resets the
  stored record and answers \<^verbatim>\<open>Retry failed\<close>; the work queue stays empty, so the record is
  not republished.
\<close>

theorem manual_retry_broker_down:
  "map_prod id observe (retry_notification False ''n-1'' (system_of (pending_email\<lparr>status := PStr ''failed_permanently'', retry_count := PNat 5\<rparr>)))
     = (Retry_failed, [(Some (PStr ''retrying''), Some (PNat 0), Some PNone)], 0, 0)"
  by (simp add: document_defs retry_notification_def publish_notification_def pending_email_def)

text \<open>
  C8, amended: on an \<^verbatim>\<open>id\<close> without a record the manual retry answers \<^verbatim>\<open>Not found\<close> and
  changes nothing. On an \<^verbatim>\<open>id\<close> with a record (a document that \<^verbatim>\<open>from_dict\<close> reads) the
  stored record gets retry count 0, no next retry time and the status \<^verbatim>\<open>retrying\<close>, and
  the dead-letter queue is left alone. When the broker takes the message, the record so
  reset is published to the work queue exactly once and the answer is \<^verbatim>\<open>Retry queued\<close>;
  when it does not, nothing is published and the answer is \<^verbatim>\<open>Retry failed\<close>. The
  message, read back by the worker, carries the \<^verbatim>\<open>id\<close>, retry count 0, the status
  \<^verbatim>\<open>retrying\<close> and no next retry time.
\<close>

theorem manual_retry_resets_and_republishes:
  "(find_one (PStr i) (store s) = None \<longrightarrow> retry_notification broker i s = (Not_found, s))
   \<and> (find_one (PStr i) (store s) = Some d \<and> from_dict d = Inr n \<longrightarrow>
        fst (retry_notification broker i s) = (if broker then Retry_queued else Retry_failed)
      \<and> find_one (PStr i) (store (snd (retry_notification broker i s)))
          = Some (d ++ bson_doc (to_dict (n\<lparr>retry_count := PNat 0, status := PStr ''retrying'',
                                             next_retry_time := PNone\<rparr>)))
      \<and> map_option (\<lambda>d'. (d' ''retry_count'', d' ''status'', d' ''next_retry_time''))
          (find_one (PStr i) (store (snd (retry_notification broker i s))))
          = Some (Some (PNat 0), Some (PStr ''retrying''), Some PNone)
      \<and> queue (snd (retry_notification broker i s))
          = (if broker
             then queue s @ [dumps (to_dict (n\<lparr>retry_count := PNat 0,
                                                status := PStr ''retrying'',
                                                next_retry_time := PNone\<rparr>))]
             else queue s)
      \<and> map_sum id (\<lambda>m. (id_n m, retry_count m, status m, next_retry_time m))
          (deserialize (dumps (to_dict (n\<lparr>retry_count := PNat 0, status := PStr ''retrying'',
                                           next_retry_time := PNone\<rparr>))))
          = Inr (PStr i, PNat 0, PStr ''retrying'', PNone)
      \<and> dlq (snd (retry_notification broker i s)) = dlq s)"
proof -
  let ?n = "n\<lparr>retry_count := PNat 0, status := PStr ''retrying'', next_retry_time := PNone\<rparr>"
  have absent: "retry_notification broker i s = (Not_found, s)"
    if "find_one (PStr i) (store s) = None"
    using that by (simp add: retry_notification_def)
  have present:
    "fst (retry_notification broker i s) = (if broker then Retry_queued else Retry_failed)
      \<and> find_one (PStr i) (store (snd (retry_notification broker i s)))
          = Some (d ++ bson_doc (to_dict ?n))
      \<and> map_option (\<lambda>d'. (d' ''retry_count'', d' ''status'', d' ''next_retry_time''))
          (find_one (PStr i) (store (snd (retry_notification broker i s))))
          = Some (Some (PNat 0), Some (PStr ''retrying''), Some PNone)
      \<and> queue (snd (retry_notification broker i s))
          = (if broker then queue s @ [dumps (to_dict ?n)] else queue s)
      \<and> map_sum id (\<lambda>m. (id_n m, retry_count m, status m, next_retry_time m))
          (deserialize (dumps (to_dict ?n)))
          = Inr (PStr i, PNat 0, PStr ''retrying'', PNone)
      \<and> dlq (snd (retry_notification broker i s)) = dlq s"
    if found: "find_one (PStr i) (store s) = Some d" and readable: "from_dict d = Inr n"
  proof -
    have "matches_id (PStr i) d"
      using found by (rule find_one_matches)
    moreover have "d ''id'' = Some (id_n n)"
      using readable by (rule from_dict_id)
    ultimately have idn: "id_n n = PStr i"
      by (simp add: matches_id_def)
    then have "to_dict ?n ''id'' = Some (PStr i)"
      by (simp add: to_dict_id)
    then have "find_one (PStr i) (update_one (PStr i) (to_dict ?n) (store s))
        = map_option (\<lambda>d. d ++ bson_doc (to_dict ?n)) (find_one (PStr i) (store s))"
      by (intro find_one_update_one) simp
    then have look: "find_one (PStr i) (update_one (PStr i) (to_dict ?n) (store s))
        = Some (d ++ bson_doc (to_dict ?n))"
      using found by simp
    have fields: "(d ++ bson_doc (to_dict ?n)) ''retry_count'' = Some (PNat 0)"
      "(d ++ bson_doc (to_dict ?n)) ''status'' = Some (PStr ''retrying'')"
      "(d ++ bson_doc (to_dict ?n)) ''next_retry_time'' = Some PNone"
      by (simp_all add: to_dict_def bson_doc_def)
    have read_back: "map_sum id (\<lambda>m. (id_n m, retry_count m, status m, next_retry_time m))
          (deserialize (dumps (to_dict ?n)))
          = Inr (PStr i, PNat 0, PStr ''retrying'', PNone)"
      using idn
      by (simp add: deserialize_def dumps_def from_dict_def to_dict_def get_default_def)
    show ?thesis
      using found readable look fields read_back
      by (simp add: retry_notification_def publish_notification_def Let_def)
  qed
  show ?thesis
    using absent present by blast
qed

text \<open>
  The theorem on a record that is \<^verbatim>\<open>failed_permanently\<close> with retry count 5 and a broker
  that takes the message, and on an \<^verbatim>\<open>id\<close> that no record has.
\<close>

theorem manual_retry_resets_and_republishes_witness:
  "find_one (PStr ''n-9'') (store (system_of (pending_email\<lparr>status := PStr ''failed_permanently'', retry_count := PNat 5\<rparr>))) = None
   \<and> map_prod id observe (retry_notification True ''n-9'' (system_of (pending_email\<lparr>status := PStr ''failed_permanently'', retry_count := PNat 5\<rparr>)))
     = (Not_found, [(Some (PStr ''failed_permanently''), Some (PNat 5), Some PNone)], 0, 0)
   \<and> find_one (PStr ''n-1'') (store (system_of (pending_email\<lparr>status := PStr ''failed_permanently'', retry_count := PNat 5\<rparr>))) = Some (to_dict (pending_email\<lparr>status := PStr ''failed_permanently'', retry_count := PNat 5\<rparr>))
   \<and> from_dict (to_dict (pending_email\<lparr>status := PStr ''failed_permanently'', retry_count := PNat 5\<rparr>)) = Inr (pending_email\<lparr>status := PStr ''failed_permanently'', retry_count := PNat 5\<rparr>)
   \<and> map_prod id observe (retry_notification True ''n-1'' (system_of (pending_email\<lparr>status := PStr ''failed_permanently'', retry_count := PNat 5\<rparr>)))
     = (Retry_queued, [(Some (PStr ''retrying''), Some (PNat 0), Some PNone)], 1, 0)"
  using manual_retry_resets_and_republishes [of "''n-9''" "system_of (pending_email\<lparr>status := PStr ''failed_permanently'', retry_count := PNat 5\<rparr>)" True]
    manual_retry_resets_and_republishes
      [of "''n-1''" "system_of (pending_email\<lparr>status := PStr ''failed_permanently'', retry_count := PNat 5\<rparr>)" True "to_dict (pending_email\<lparr>status := PStr ''failed_permanently'', retry_count := PNat 5\<rparr>)" "pending_email\<lparr>status := PStr ''failed_permanently'', retry_count := PNat 5\<rparr>"]
  by (simp add: document_defs retry_notification_def publish_notification_def pending_email_def)

subsection \<open>In-app notifications\<close>

text \<open>
  C9: for a notification of type \<^verbatim>\<open>in_app\<close>, whatever its contact fields hold and
  whatever the providers would answer, \<^verbatim>\<open>send_notification\<close> makes no call, returns
  \<^verbatim>\<open>True\<close> and changes the status to \<^verbatim>\<open>sent\<close> only; \<^verbatim>\<open>process_notification\<close> then
  writes the status \<^verbatim>\<open>sent\<close> and an empty \<^verbatim>\<open>last_error\<close> into the stored record and leaves
  both queues alone.
\<close>

theorem in_app_always_sent:
  assumes "notification_type n = PStr ''in_app''"
  shows "send_notification prov n = (True, n\<lparr>status := PStr ''sent''\<rparr>, [])
    \<and> (deserialize b = Inr n \<and> find_one (id_n n) (store s) = Some d \<longrightarrow>
         fst (process_notification prov broker now b s) = True
         \<and> find_one (id_n n) (store (snd (process_notification prov broker now b s)))
             = Some (d(''status'' \<mapsto> PStr ''sent'', ''last_error'' \<mapsto> PNone))
         \<and> queue (snd (process_notification prov broker now b s)) = queue s
         \<and> dlq (snd (process_notification prov broker now b s)) = dlq s)"
proof -
  have sent: "send_notification prov n = (True, n\<lparr>status := PStr ''sent''\<rparr>, [])"
    using assms by (simp add: send_notification_def)
  have "[''status'' \<mapsto> PStr ''sent'', ''last_error'' \<mapsto> PNone] ''id'' = None"
    by simp
  then have "find_one (id_n n)
       (update_one (id_n n) [''status'' \<mapsto> PStr ''sent'', ''last_error'' \<mapsto> PNone] (store s))
     = map_option (\<lambda>d. d ++ bson_doc [''status'' \<mapsto> PStr ''sent'', ''last_error'' \<mapsto> PNone])
         (find_one (id_n n) (store s))"
    by (intro find_one_update_one) simp
  moreover have "bson_doc [''status'' \<mapsto> PStr ''sent'', ''last_error'' \<mapsto> PNone]
      = [''status'' \<mapsto> PStr ''sent'', ''last_error'' \<mapsto> PNone]"
    by (rule ext) (simp add: bson_doc_def)
  ultimately have look:
    "find_one (id_n n)
       (update_one (id_n n) [''status'' \<mapsto> PStr ''sent'', ''last_error'' \<mapsto> PNone] (store s))
     = map_option (\<lambda>d. d ++ [''status'' \<mapsto> PStr ''sent'', ''last_error'' \<mapsto> PNone])
         (find_one (id_n n) (store s))"
    by simp
  show ?thesis
    using sent look by (auto simp: process_notification_def)
qed

text \<open>
  The theorem on an in-app notification with a malformed address and a malformed
  number, a stale \<^verbatim>\<open>last_error\<close> in the collection and providers that refuse every call.
\<close>

theorem in_app_always_sent_witness:
  "notification_type (pending_in_app\<lparr>created_at := PDateStr 0\<rparr>) = PStr ''in_app''
   \<and> send_notification provider_down (pending_in_app\<lparr>created_at := PDateStr 0\<rparr>)
     = (True, pending_in_app\<lparr>created_at := PDateStr 0, status := PStr ''sent''\<rparr>, [])
   \<and> deserialize (dumps (to_dict pending_in_app)) = Inr (pending_in_app\<lparr>created_at := PDateStr 0\<rparr>)
   \<and> find_one (PStr ''n-3'') (store (system_of (pending_in_app\<lparr>last_error := PStr ''old''\<rparr>)))
     = Some (to_dict (pending_in_app\<lparr>last_error := PStr ''old''\<rparr>))
   \<and> map_option (\<lambda>d. (d ''status'', d ''last_error''))
       (find_one (PStr ''n-3'')
          (store (snd (process_notification provider_down True 0 (dumps (to_dict pending_in_app))
                         (system_of (pending_in_app\<lparr>last_error := PStr ''old''\<rparr>))))))
     = Some (Some (PStr ''sent''), Some PNone)"
  using in_app_always_sent
      [of "pending_in_app\<lparr>created_at := PDateStr 0\<rparr>" provider_down
          "dumps (to_dict pending_in_app)"
          "system_of (pending_in_app\<lparr>last_error := PStr ''old''\<rparr>)"
          "to_dict (pending_in_app\<lparr>last_error := PStr ''old''\<rparr>)" True 0]
  by (simp add: document_defs pending_in_app_def)

end
